theory Spec2Isabelle
  imports Complex_Main "HOL-Library.Multiset"
begin

section \<open>Revenue estimator (files/artist\_analyzer.py)\<close>

text \<open>
  Python values are modelled as follows. A pandas cell that is NaN is \<open>None\<close>; a present
  popularity is a rational number (the column is numeric, and the code truncates it with
  \<open>int(...)\<close>). Floating-point arithmetic is replaced by exact rational arithmetic. A failed
  dictionary subscript raises \<open>KeyError\<close>, which is the \<open>Inl\<close> branch of the result.
\<close>

datatype error = KeyError

datatype tier = hit | good | mid | bust | unknown

definition revenue_benchmarks :: "(int \<times> int) list" where
  "revenue_benchmarks =
     [(0, 500), (10, 5000), (20, 12000), (30, 30000), (40, 75000), (50, 150000),
      (60, 350000), (70, 800000), (80, 2000000), (90, 15000000), (100, 30000000)]"

definition tier_definitions :: "(tier \<times> int \<times> int) list" where
  "tier_definitions = [(hit, 80, 100), (good, 65, 79), (mid, 35, 64), (bust, 0, 34)]"

text \<open>\<open>d[k]\<close> on a dictionary held as an association list.\<close>

definition dict_getitem :: "('k \<times> 'v) list \<Rightarrow> 'k \<Rightarrow> error + 'v" where
  "dict_getitem d k = (case map_of d k of None \<Rightarrow> Inl KeyError | Some v \<Rightarrow> Inr v)"

text \<open>\<open>int(x)\<close> truncates towards zero.\<close>

definition py_int :: "rat \<Rightarrow> int" where
  "py_int x = (if 0 \<le> x then \<lfloor>x\<rfloor> else \<lceil>x\<rceil>)"

definition estimate_song_revenue :: "rat option \<Rightarrow> error + rat" where
  "estimate_song_revenue popularity =
     (case popularity of
        None \<Rightarrow> Inr 0
      | Some pop \<Rightarrow>
          let p = py_int pop;
              lower_bound = (p div 10) * 10;
              upper_bound = min (lower_bound + 10) 100
          in if lower_bound = upper_bound
             then (case dict_getitem revenue_benchmarks lower_bound of
                     Inl e \<Rightarrow> Inl e
                   | Inr v \<Rightarrow> Inr (of_int v))
             else (case dict_getitem revenue_benchmarks lower_bound of
                     Inl e \<Rightarrow> Inl e
                   | Inr lower_revenue \<Rightarrow>
                       (case dict_getitem revenue_benchmarks upper_bound of
                          Inl e \<Rightarrow> Inl e
                        | Inr upper_revenue \<Rightarrow>
                            let fraction = of_int (p - lower_bound) / 10
                            in Inr (of_int lower_revenue
                                    + of_int (upper_revenue - lower_revenue) * fraction))))"

fun classify_loop :: "(tier \<times> int \<times> int) list \<Rightarrow> rat \<Rightarrow> tier" where
  "classify_loop [] popularity = unknown"
| "classify_loop ((t, min_pop, max_pop) # ts) popularity =
     (if of_int min_pop \<le> popularity \<and> popularity \<le> of_int max_pop then t
      else classify_loop ts popularity)"

definition classify_song :: "rat option \<Rightarrow> tier" where
  "classify_song popularity =
     (case popularity of None \<Rightarrow> unknown | Some p \<Rightarrow> classify_loop tier_definitions p)"

text \<open>The benchmark value at a multiple of ten between 0 and 100, read off the table.\<close>

definition benchmark :: "int \<Rightarrow> int" where
  "benchmark k = (case map_of revenue_benchmarks k of None \<Rightarrow> 0 | Some v \<Rightarrow> v)"

text \<open>
  The reference the specification gives for the estimator: linear interpolation between the
  benchmark at \<open>lower = floor(p/10)*10\<close> and the one at \<open>upper = min(lower+10, 100)\<close>.
\<close>

definition spec_estimate_revenue :: "int \<Rightarrow> rat" where
  "spec_estimate_revenue p =
     (let lower = (p div 10) * 10; upper = min (lower + 10) 100
      in of_int (benchmark lower)
         + of_int (benchmark upper - benchmark lower) * (of_int (p - lower) / 10))"

section \<open>Artist aggregator (files/artist\_analyzer.py)\<close>

text \<open>
  A row of the data frame. A cell that pandas reports as missing (\<open>pd.isna\<close>) is \<open>None\<close>.
  The \<open>Explicit\<close> cell is kept as a Python value, since the code compares it with a string.
  The seven audio columns are read through \<open>audio\<close>; \<open>None\<close> stands for a column that is
  absent from the row or holds NaN.
\<close>

datatype pyval = PyNaN | PyBool bool | PyStr string | PyNum rat

datatype feature =
  energy | danceability | positiveness | speechiness | liveness | acousticness | instrumentalness

record row =
  song :: "string option"
  Artists :: "string option"
  Popularity :: "rat option"
  Genre :: "string option"
  Explicit :: pyval
  Release_Date :: "string option"
  audio :: "feature \<Rightarrow> rat option"

text \<open>\<open>v == s\<close> for a string \<open>s\<close>, and Python's truth value of a cell.\<close>

fun py_eq_str :: "pyval \<Rightarrow> string \<Rightarrow> bool" where
  "py_eq_str (PyStr s) t = (s = t)"
| "py_eq_str _ t = False"


text \<open>\<open>str.split(',')\<close> and \<open>str.strip()\<close> on ASCII text.\<close>

fun split_on :: "char \<Rightarrow> string \<Rightarrow> string list" where
  "split_on sep [] = [[]]"
| "split_on sep (c # cs) =
     (if c = sep then [] # split_on sep cs
      else (case split_on sep cs of [] \<Rightarrow> [[c]] | w # ws \<Rightarrow> (c # w) # ws))"

definition py_isspace :: "char \<Rightarrow> bool" where
  "py_isspace c \<longleftrightarrow>
     c \<in> set [CHR 0x09, CHR 0x0A, CHR 0x0B, CHR 0x0C, CHR 0x0D,
              CHR 0x1C, CHR 0x1D, CHR 0x1E, CHR 0x1F, CHR '' '']"

definition strip :: "string \<Rightarrow> string" where
  "strip s = rev (dropWhile py_isspace (rev (dropWhile py_isspace s)))"

definition parse_artists :: "string option \<Rightarrow> string list" where
  "parse_artists artist_string =
     (case artist_string of
        None \<Rightarrow> []
      | Some s \<Rightarrow> filter (\<lambda>a. a \<noteq> []) (map strip (split_on (CHR '','') s)))"

text \<open>
  \<open>pd.to_datetime\<close> belongs to pandas and is a parameter: it gives the timestamp (in
  nanoseconds) of a date string, or \<open>None\<close> where it raises.
\<close>

definition parse_release_date :: "(string \<Rightarrow> int option) \<Rightarrow> string option \<Rightarrow> int option" where
  "parse_release_date to_datetime date_string =
     (case date_string of None \<Rightarrow> None | Some s \<Rightarrow> to_datetime s)"

record song_detail =
  d_title :: "string option"
  d_popularity :: "rat option"
  d_tier :: tier
  d_revenue :: rat
  d_release_date :: "string option"

text \<open>
  The keys that the per-artist accumulator and the final profile share are the fields of a
  common base record; each of the two extends it.
\<close>

record tier_counts =
  total_songs :: int
  hit_songs :: int
  good_songs :: int
  mid_songs :: int
  bust_songs :: int
  songs :: "song_detail list"

record artist_acc = tier_counts +
  total_revenue :: rat
  genres :: "(string \<times> int) list"
  explicit_count :: int
  release_dates :: "int list"
  audio_features :: "feature \<Rightarrow> rat list"

record artist_profile = tier_counts +
  hit_rate :: rat
  good_rate :: rat
  mid_rate :: rat
  bust_rate :: rat
  estimated_total_revenue :: rat
  avg_revenue_per_song :: rat
  primary_genre :: "string option"
  genre_distribution :: "(string \<times> int) list"
  explicit_ratio :: rat
  first_release :: "int option"
  last_release :: "int option"
  career_span_years :: rat
  avg_features :: "feature \<Rightarrow> rat"

text \<open>Dictionaries keep insertion order: a new key goes to the end, a known key keeps its place.\<close>

fun dict_set :: "('k \<times> 'v) list \<Rightarrow> 'k \<Rightarrow> 'v \<Rightarrow> ('k \<times> 'v) list" where
  "dict_set [] k v = [(k, v)]"
| "dict_set ((k', v') # kvs) k v =
     (if k' = k then (k, v) # kvs else (k', v') # dict_set kvs k v)"

definition new_artist_data :: artist_acc where
  "new_artist_data =
     \<lparr>total_songs = 0, hit_songs = 0, good_songs = 0, mid_songs = 0, bust_songs = 0, songs = [],
      total_revenue = 0, genres = [], explicit_count = 0, release_dates = [],
      audio_features = (\<lambda>f. [])\<rparr>"

text \<open>Subscripting the two \<open>defaultdict\<close>s.\<close>

definition artist_data_get :: "(string \<times> artist_acc) list \<Rightarrow> string \<Rightarrow> artist_acc" where
  "artist_data_get artist_data artist =
     (case map_of artist_data artist of None \<Rightarrow> new_artist_data | Some data \<Rightarrow> data)"

definition genres_incr :: "(string \<times> int) list \<Rightarrow> string \<Rightarrow> (string \<times> int) list" where
  "genres_incr gs g = dict_set gs g ((case map_of gs g of None \<Rightarrow> 0 | Some n \<Rightarrow> n) + 1)"

text \<open>The body of the loop over the artists of one song.\<close>

definition credit_artist ::
  "(string \<Rightarrow> int option) \<Rightarrow> row \<Rightarrow> tier \<Rightarrow> rat \<Rightarrow> artist_acc \<Rightarrow> artist_acc" where
  "credit_artist to_datetime r tier revenue data0 =
     (let data = data0\<lparr>total_songs := total_songs data0 + 1\<rparr>;
          data = data\<lparr>songs := songs data @
                   [\<lparr>d_title = song r, d_popularity = Popularity r, d_tier = tier,
                     d_revenue = revenue, d_release_date = Release_Date r\<rparr>]\<rparr>;
          data = (if tier = hit then data\<lparr>hit_songs := hit_songs data + 1\<rparr>
                  else if tier = good then data\<lparr>good_songs := good_songs data + 1\<rparr>
                  else if tier = mid then data\<lparr>mid_songs := mid_songs data + 1\<rparr>
                  else if tier = bust then data\<lparr>bust_songs := bust_songs data + 1\<rparr>
                  else data);
          data = data\<lparr>total_revenue := total_revenue data + revenue\<rparr>;
          data = (case Genre r of
                    None \<Rightarrow> data
                  | Some g \<Rightarrow> data\<lparr>genres := genres_incr (genres data) g\<rparr>);
          data = (if py_eq_str (Explicit r) ''Yes''
                  then data\<lparr>explicit_count := explicit_count data + 1\<rparr> else data);
          data = (case parse_release_date to_datetime (Release_Date r) of
                    None \<Rightarrow> data
                  | Some release_date \<Rightarrow>
                      data\<lparr>release_dates := release_dates data @ [release_date]\<rparr>)
      in data\<lparr>audio_features :=
                 (\<lambda>f. case audio r f of
                         None \<Rightarrow> audio_features data f
                       | Some v \<Rightarrow> audio_features data f @ [v])\<rparr>)"

fun credit_artists ::
  "(string \<Rightarrow> int option) \<Rightarrow> row \<Rightarrow> tier \<Rightarrow> rat \<Rightarrow> string list
     \<Rightarrow> (string \<times> artist_acc) list \<Rightarrow> (string \<times> artist_acc) list" where
  "credit_artists to_datetime r tier revenue [] artist_data = artist_data"
| "credit_artists to_datetime r tier revenue (artist # artists) artist_data =
     credit_artists to_datetime r tier revenue artists
       (dict_set artist_data artist
          (credit_artist to_datetime r tier revenue (artist_data_get artist_data artist)))"

text \<open>One pass of the loop over the rows: tier and revenue are computed before the artists loop.\<close>

definition process_row ::
  "(string \<Rightarrow> int option) \<Rightarrow> row \<Rightarrow> (string \<times> artist_acc) list
     \<Rightarrow> error + (string \<times> artist_acc) list" where
  "process_row to_datetime r artist_data =
     (let artists = parse_artists (Artists r);
          pop = Popularity r;
          tier = classify_song pop
      in case estimate_song_revenue pop of
           Inl e \<Rightarrow> Inl e
         | Inr revenue \<Rightarrow> Inr (credit_artists to_datetime r tier revenue artists artist_data))"

fun accumulate ::
  "(string \<Rightarrow> int option) \<Rightarrow> row list \<Rightarrow> (string \<times> artist_acc) list
     \<Rightarrow> error + (string \<times> artist_acc) list" where
  "accumulate to_datetime [] artist_data = Inr artist_data"
| "accumulate to_datetime (r # rs) artist_data =
     (case process_row to_datetime r artist_data of
        Inl e \<Rightarrow> Inl e
      | Inr artist_data' \<Rightarrow> accumulate to_datetime rs artist_data')"

text \<open>\<open>round(x, 2)\<close>: to the nearest hundredth, a tie going to the even neighbour.\<close>

definition py_round2 :: "rat \<Rightarrow> rat" where
  "py_round2 x =
     (let y = x * 100; f = \<lfloor>y\<rfloor>; d = y - of_int f
      in of_int (if d < 1 / 2 then f else if 1 / 2 < d then f + 1
                 else if even f then f else f + 1) / 100)"

text \<open>\<open>(count / total * 100) if total > 0 else 0\<close>\<close>

definition percent_of :: "int \<Rightarrow> int \<Rightarrow> rat" where
  "percent_of n total' = (if total' > 0 then of_int n / of_int total' * 100 else 0)"

definition np_mean :: "rat list \<Rightarrow> rat" where
  "np_mean values = sum_list values / of_nat (length values)"

definition np_median :: "rat list \<Rightarrow> rat" where
  "np_median values =
     (let s = sort values; n = length s
      in if even n then (s ! (n div 2 - 1) + s ! (n div 2)) / 2 else s ! (n div 2))"

text \<open>\<open>max(items, key=lambda x: x[1])\<close>: the first item with the largest count.\<close>

fun max_by_count :: "(string \<times> int) \<Rightarrow> (string \<times> int) list \<Rightarrow> (string \<times> int)" where
  "max_by_count best [] = best"
| "max_by_count best (x # xs) = max_by_count (if snd best < snd x then x else best) xs"

definition ns_per_day :: int where
  "ns_per_day = 86400000000000"

text \<open>
  The derived metrics of one artist. A date (\<open>Timestamp.date()\<close>) is the number of the day;
  \<open>Timedelta.days\<close> is the whole number of days of a difference.
\<close>

definition finalize_artist :: "artist_acc \<Rightarrow> artist_profile" where
  "finalize_artist data =
     (let total' = total_songs data;
          avg_revenue = (if total' > 0 then total_revenue data / of_int total' else 0);
          timeline =
            (case release_dates data of
               [] \<Rightarrow> (None, None, 0)
             | d # ds \<Rightarrow>
                 let first = fold min ds d;
                     last = fold max ds d;
                     career_span_days = (last - first) div ns_per_day
                 in (Some (first div ns_per_day), Some (last div ns_per_day),
                     of_int career_span_days / (36525 / 100)))
      in \<lparr>total_songs = total',
          hit_songs = hit_songs data,
          good_songs = good_songs data,
          mid_songs = mid_songs data,
          bust_songs = bust_songs data,
          songs = songs data,
          hit_rate = py_round2 (percent_of (hit_songs data) total'),
          good_rate = py_round2 (percent_of (good_songs data) total'),
          mid_rate = py_round2 (percent_of (mid_songs data) total'),
          bust_rate = py_round2 (percent_of (bust_songs data) total'),
          estimated_total_revenue = py_round2 (total_revenue data),
          avg_revenue_per_song = py_round2 avg_revenue,
          primary_genre =
            (case genres data of [] \<Rightarrow> None | g # gs \<Rightarrow> Some (fst (max_by_count g gs))),
          genre_distribution = genres data,
          explicit_ratio = py_round2 (percent_of (explicit_count data) total'),
          first_release = fst timeline,
          last_release = fst (snd timeline),
          career_span_years = py_round2 (snd (snd timeline)),
          avg_features =
            (\<lambda>f. py_round2 (case audio_features data f of
                               [] \<Rightarrow> 0
                             | v # vs \<Rightarrow> np_mean (v # vs)))\<rparr>)"

definition analyze_artists ::
  "(string \<Rightarrow> int option) \<Rightarrow> row list \<Rightarrow> error + (string \<times> artist_profile) list" where
  "analyze_artists to_datetime rows =
     (case accumulate to_datetime rows [] of
        Inl e \<Rightarrow> Inl e
      | Inr artist_data \<Rightarrow>
          Inr (map (\<lambda>(artist, data). (artist, finalize_artist data)) artist_data))"

record summary_stats =
  total_artists :: int
  summary_total_songs :: int
  total_estimated_revenue :: rat
  avg_songs_per_artist :: rat
  avg_revenue_per_artist :: rat
  avg_hit_rate :: rat
  median_hit_rate :: rat

definition get_summary_stats :: "(string \<times> artist_profile) list \<Rightarrow> summary_stats" where
  "get_summary_stats artist_data =
     (let n_artists = int (length artist_data);
          n_songs = sum_list (map (\<lambda>(artist, data). total_songs data) artist_data);
          revenue_sum = sum_list (map (\<lambda>(artist, data). estimated_total_revenue data) artist_data);
          songs_per_artist = (if n_artists > 0 then of_int n_songs / of_int n_artists else 0);
          revenue_per_artist = (if n_artists > 0 then revenue_sum / of_int n_artists else 0);
          hit_rates = map (\<lambda>(artist, data). hit_rate data) artist_data
      in \<lparr>total_artists = n_artists,
          summary_total_songs = n_songs,
          total_estimated_revenue = py_round2 revenue_sum,
          avg_songs_per_artist = py_round2 songs_per_artist,
          avg_revenue_per_artist = py_round2 revenue_per_artist,
          avg_hit_rate = (if hit_rates \<noteq> [] then py_round2 (np_mean hit_rates) else 0),
          median_hit_rate = (if hit_rates \<noteq> [] then py_round2 (np_median hit_rates) else 0)\<rparr>)"

text \<open>A number with at most two decimal places.\<close>

definition two_decimals :: "rat \<Rightarrow> bool" where
  "two_decimals x \<longleftrightarrow> of_int \<lfloor>x * 100\<rfloor> = x * 100"

text \<open>Example rows: the song of the specification's end-to-end example and variants of it.\<close>

definition no_audio :: "feature \<Rightarrow> rat option" where
  "no_audio f = None"

definition no_dates :: "string \<Rightarrow> int option" where
  "no_dates s = None"

definition example_row :: row where
  "example_row =
     \<lparr>song = Some ''X'', Artists = Some ''A, B'', Popularity = Some 82, Genre = Some ''pop'',
      Explicit = PyStr ''No'', Release_Date = Some ''2020-01-01'', audio = no_audio\<rparr>"

definition unrated_row :: row where
  "unrated_row = example_row\<lparr>Popularity := None\<rparr>"



definition example_profiles :: "(string \<times> artist_profile) list" where
  "example_profiles =
     map (\<lambda>(artist, data). (artist, finalize_artist data))
       (credit_artists no_dates example_row hit 4600000 [''A'', ''B''] [])"

section \<open>Saving the results\<close>

text \<open>
  What \<open>json.dump\<close> writes, as a tree. With its default \<open>allow_nan=True\<close> a float NaN is
  written as the token \<open>NaN\<close>, which is the leaf \<open>JNaN\<close>; Python's \<open>None\<close> is \<open>null\<close>. A missing
  cell of the data frame is a float NaN. \<open>date_str\<close> is \<open>str\<close> of a date.
\<close>

datatype json =
  JNull | JNaN | JNumber rat | JString string | JArray "json list" | JObject "(string \<times> json) list"

definition json_str_cell :: "string option \<Rightarrow> json" where
  "json_str_cell c = (case c of None \<Rightarrow> JNaN | Some s \<Rightarrow> JString s)"

definition json_num_cell :: "rat option \<Rightarrow> json" where
  "json_num_cell c = (case c of None \<Rightarrow> JNaN | Some x \<Rightarrow> JNumber x)"

fun tier_name :: "tier \<Rightarrow> string" where
  "tier_name hit = ''hit''"
| "tier_name good = ''good''"
| "tier_name mid = ''mid''"
| "tier_name bust = ''bust''"
| "tier_name unknown = ''unknown''"

fun feature_name :: "feature \<Rightarrow> string" where
  "feature_name energy = ''energy''"
| "feature_name danceability = ''danceability''"
| "feature_name positiveness = ''positiveness''"
| "feature_name speechiness = ''speechiness''"
| "feature_name liveness = ''liveness''"
| "feature_name acousticness = ''acousticness''"
| "feature_name instrumentalness = ''instrumentalness''"

definition features :: "feature list" where
  "features = [energy, danceability, positiveness, speechiness, liveness, acousticness,
               instrumentalness]"

definition json_song_detail :: "song_detail \<Rightarrow> json" where
  "json_song_detail d =
     JObject [(''title'', json_str_cell (d_title d)),
              (''popularity'', json_num_cell (d_popularity d)),
              (''tier'', JString (tier_name (d_tier d))),
              (''revenue'', JNumber (d_revenue d)),
              (''release_date'', json_str_cell (d_release_date d))]"

definition json_date :: "(int \<Rightarrow> string) \<Rightarrow> int option \<Rightarrow> json" where
  "json_date date_str d = (case d of None \<Rightarrow> JNull | Some day \<Rightarrow> JString (date_str day))"

definition json_profile :: "(int \<Rightarrow> string) \<Rightarrow> artist_profile \<Rightarrow> json" where
  "json_profile date_str p =
     JObject ([(''total_songs'', JNumber (of_int (total_songs p))),
               (''hit_songs'', JNumber (of_int (hit_songs p))),
               (''good_songs'', JNumber (of_int (good_songs p))),
               (''mid_songs'', JNumber (of_int (mid_songs p))),
               (''bust_songs'', JNumber (of_int (bust_songs p))),
               (''hit_rate'', JNumber (hit_rate p)),
               (''good_rate'', JNumber (good_rate p)),
               (''mid_rate'', JNumber (mid_rate p)),
               (''bust_rate'', JNumber (bust_rate p)),
               (''estimated_total_revenue'', JNumber (estimated_total_revenue p)),
               (''avg_revenue_per_song'', JNumber (avg_revenue_per_song p)),
               (''primary_genre'',
                  (case primary_genre p of None \<Rightarrow> JNull | Some g \<Rightarrow> JString g)),
               (''genre_distribution'',
                  JObject (map (\<lambda>(g, n). (g, JNumber (of_int n))) (genre_distribution p))),
               (''explicit_ratio'', JNumber (explicit_ratio p)),
               (''first_release'', json_date date_str (first_release p)),
               (''last_release'', json_date date_str (last_release p)),
               (''career_span_years'', JNumber (career_span_years p))]
              @ map (\<lambda>f. (''avg_'' @ feature_name f, JNumber (avg_features p f))) features
              @ [(''songs'', JArray (map json_song_detail (songs p)))])"

definition json_summary :: "summary_stats \<Rightarrow> json" where
  "json_summary s =
     JObject [(''total_artists'', JNumber (of_int (total_artists s))),
              (''total_songs'', JNumber (of_int (summary_total_songs s))),
              (''total_estimated_revenue'', JNumber (total_estimated_revenue s)),
              (''avg_songs_per_artist'', JNumber (avg_songs_per_artist s)),
              (''avg_revenue_per_artist'', JNumber (avg_revenue_per_artist s)),
              (''avg_hit_rate'', JNumber (avg_hit_rate s)),
              (''median_hit_rate'', JNumber (median_hit_rate s))]"

definition save_results :: "(int \<Rightarrow> string) \<Rightarrow> (string \<times> artist_profile) list \<Rightarrow> json" where
  "save_results date_str artist_data =
     JObject [(''summary'', json_summary (get_summary_stats artist_data)),
              (''artists'',
                 JObject (map (\<lambda>(artist, p). (artist, json_profile date_str p)) artist_data))]"

text \<open>Whether the written text has a \<open>NaN\<close> token.\<close>

fun has_nan :: "json \<Rightarrow> bool" where
  "has_nan JNaN = True"
| "has_nan (JArray xs) = (\<exists>x \<in> set xs. has_nan x)"
| "has_nan (JObject kvs) = (\<exists>kv \<in> set kvs. has_nan (snd kv))"
| "has_nan _ = False"

definition unrated_profiles :: "(string \<times> artist_profile) list" where
  "unrated_profiles =
     map (\<lambda>(artist, data). (artist, finalize_artist data))
       (credit_artists no_dates unrated_row unknown 0 [''A'', ''B''] [])"

section \<open>An order-independent view of the accumulators\<close>










section \<open>Properties of the revenue estimator\<close>

lemma py_int_of_int: "py_int (of_int p) = p"
  by (simp add: py_int_def)

lemma map_of_benchmarks_decade:
  "0 \<le> k \<Longrightarrow> k \<le> 10 \<Longrightarrow> map_of revenue_benchmarks (k * 10) = Some (benchmark (k * 10))"
proof -
  assume "0 \<le> k" "k \<le> 10"
  then have "k \<in> {0,1,2,3,4,5,6,7,8,9,10}" by simp presburger
  then show ?thesis
    by (auto simp: revenue_benchmarks_def benchmark_def)
qed

lemma estimate_in_range:
  assumes "0 \<le> py_int x" "py_int x < 100"
  shows "estimate_song_revenue (Some x) =
     Inr (of_int (benchmark (py_int x div 10 * 10))
          + of_int (benchmark (py_int x div 10 * 10 + 10) - benchmark (py_int x div 10 * 10))
            * (of_int (py_int x - py_int x div 10 * 10) / 10))"
proof -
  define k where "k = py_int x div 10"
  have k: "0 \<le> k" "k \<le> 9" using assms by (auto simp: k_def)
  have lo: "map_of revenue_benchmarks (k * 10) = Some (benchmark (k * 10))"
    using k by (intro map_of_benchmarks_decade) auto
  have hi: "map_of revenue_benchmarks (k * 10 + 10) = Some (benchmark (k * 10 + 10))"
    using map_of_benchmarks_decade [of "k + 1"] k by (simp add: algebra_simps)
  have m: "min (k * 10 + 10) 100 = k * 10 + 10" using k by simp
  show ?thesis
    unfolding estimate_song_revenue_def
    by (simp add: Let_def k_def [symmetric] m lo hi dict_getitem_def)
qed

lemma estimate_top:
  assumes "100 \<le> py_int x" "py_int x < 110"
  shows "estimate_song_revenue (Some x) = Inr 30000000"
proof -
  have "py_int x div 10 = 10" using assms by simp
  then show ?thesis
    unfolding estimate_song_revenue_def
    by (simp add: Let_def dict_getitem_def revenue_benchmarks_def)
qed

lemma estimate_keyerror:
  assumes "py_int x < 0 \<or> 110 \<le> py_int x"
  shows "estimate_song_revenue (Some x) = Inl KeyError"
proof -
  define k where "k = py_int x div 10"
  have k: "k < 0 \<or> 11 \<le> k" using assms by (auto simp: k_def)
  have lo: "map_of revenue_benchmarks (k * 10) = None"
    using k by (auto simp: revenue_benchmarks_def)
  show ?thesis
    unfolding estimate_song_revenue_def
    by (simp add: Let_def k_def [symmetric] lo dict_getitem_def)
qed

lemma estimate_eq_spec:
  assumes "0 \<le> py_int x" "py_int x \<le> 100"
  shows "estimate_song_revenue (Some x) = Inr (spec_estimate_revenue (py_int x))"
proof (cases "py_int x = 100")
  case True
  then show ?thesis
    using estimate_top [of x]
    by (simp add: spec_estimate_revenue_def benchmark_def revenue_benchmarks_def)
next
  case False
  then have lt: "py_int x < 100" using assms by simp
  then have "py_int x div 10 * 10 + 10 \<le> 100" by presburger
  then show ?thesis
    using estimate_in_range [OF assms(1) lt]
    by (simp add: spec_estimate_revenue_def Let_def)
qed

lemma benchmark_mono_step:
  assumes "0 \<le> k" "k \<le> 9"
  shows "0 < benchmark (k * 10)" "benchmark (k * 10) \<le> benchmark (k * 10 + 10)"
proof -
  have "k \<in> {0,1,2,3,4,5,6,7,8,9}" using assms by simp presburger
  then show "0 < benchmark (k * 10)" "benchmark (k * 10) \<le> benchmark (k * 10 + 10)"
    by (auto simp: benchmark_def revenue_benchmarks_def)
qed

lemma spec_estimate_decade:
  assumes "0 \<le> k" "k \<le> 9" "0 \<le> j" "j \<le> 9"
  shows "spec_estimate_revenue (k * 10 + j) =
           of_int (benchmark (k * 10))
           + of_int (benchmark (k * 10 + 10) - benchmark (k * 10)) * (of_int j / 10)"
proof -
  have d: "(k * 10 + j) div 10 = k" using assms by simp
  have m: "min (k * 10 + 10) 100 = k * 10 + 10" using assms by simp
  show ?thesis by (simp add: spec_estimate_revenue_def Let_def d m)
qed

lemma spec_estimate_100: "spec_estimate_revenue 100 = 30000000"
  by (simp add: spec_estimate_revenue_def benchmark_def revenue_benchmarks_def)

lemma spec_estimate_at_decade:
  assumes "0 \<le> k" "k \<le> 10"
  shows "spec_estimate_revenue (k * 10) = of_int (benchmark (k * 10))"
proof (cases "k = 10")
  case True
  then show ?thesis by (simp add: spec_estimate_100 benchmark_def revenue_benchmarks_def)
next
  case False
  then have "k \<le> 9" using assms by simp
  then show ?thesis using spec_estimate_decade [of k 0] assms by simp
qed

lemma spec_estimate_step:
  assumes "0 \<le> n" "n < 100"
  shows "spec_estimate_revenue n \<le> spec_estimate_revenue (n + 1)"
proof -
  define k where "k = n div 10"
  define j where "j = n mod 10"
  have n: "n = k * 10 + j" by (simp add: k_def j_def)
  have k: "0 \<le> k" "k \<le> 9" using assms by (auto simp: k_def)
  have j: "0 \<le> j" "j \<le> 9" by (auto simp: j_def)
  have d: "(0::rat) \<le> of_int (benchmark (k * 10 + 10) - benchmark (k * 10))"
    using benchmark_mono_step(2) [OF k] by simp
  have here: "spec_estimate_revenue n =
               of_int (benchmark (k * 10))
               + of_int (benchmark (k * 10 + 10) - benchmark (k * 10)) * (of_int j / 10)"
    unfolding n by (rule spec_estimate_decade [OF k j])
  show ?thesis
  proof (cases "j = 9")
    case True
    have e: "n + 1 = (k + 1) * 10" using True n by simp
    have there: "spec_estimate_revenue (n + 1) = of_int (benchmark (k * 10 + 10))"
      unfolding e using spec_estimate_at_decade [of "k + 1"] k by (simp add: algebra_simps)
    have "of_int (benchmark (k * 10 + 10) - benchmark (k * 10)) * (of_int j / (10::rat))
          \<le> of_int (benchmark (k * 10 + 10) - benchmark (k * 10)) * 1"
      using j by (intro mult_left_mono d) simp
    then show ?thesis unfolding here there by simp
  next
    case False
    then have j': "0 \<le> j + 1" "j + 1 \<le> 9" using j by auto
    have e: "n + 1 = k * 10 + (j + 1)" using n by simp
    have there: "spec_estimate_revenue (n + 1) =
               of_int (benchmark (k * 10))
               + of_int (benchmark (k * 10 + 10) - benchmark (k * 10)) * (of_int (j + 1) / 10)"
      unfolding e by (rule spec_estimate_decade [OF k j'])
    have "of_int (benchmark (k * 10 + 10) - benchmark (k * 10)) * (of_int j / (10::rat))
          \<le> of_int (benchmark (k * 10 + 10) - benchmark (k * 10)) * (of_int (j + 1) / 10)"
      by (intro mult_left_mono d) simp
    then show ?thesis unfolding here there by simp
  qed
qed

lemma spec_estimate_mono:
  assumes "0 \<le> p" "p \<le> q" "q \<le> 100"
  shows "spec_estimate_revenue p \<le> spec_estimate_revenue q"
proof -
  have "\<And>n. spec_estimate_revenue (int (min n 100)) \<le> spec_estimate_revenue (int (min (Suc n) 100))"
  proof -
    fix n :: nat
    show "spec_estimate_revenue (int (min n 100)) \<le> spec_estimate_revenue (int (min (Suc n) 100))"
    proof (cases "n < 100")
      case True
      then have "int (min (Suc n) 100) = int (min n 100) + 1" by simp
      then show ?thesis using spec_estimate_step [of "int (min n 100)"] True by (simp add: add.commute)
    next
      case False
      then show ?thesis by simp
    qed
  qed
  then have "spec_estimate_revenue (int (min (nat p) 100)) \<le> spec_estimate_revenue (int (min (nat q) 100))"
    using assms by (rule_tac lift_Suc_mono_le [of "\<lambda>n. spec_estimate_revenue (int (min n 100))"]) auto
  moreover have "int (min (nat p) 100) = p" "int (min (nat q) 100) = q"
    using assms by auto
  ultimately show ?thesis by simp
qed

lemma spec_estimate_nonneg:
  assumes "0 \<le> p" "p \<le> 100"
  shows "0 \<le> spec_estimate_revenue p"
proof -
  have "(500::rat) \<le> spec_estimate_revenue p"
    using spec_estimate_mono [of 0 p] assms spec_estimate_at_decade [of 0]
    by (simp add: benchmark_def revenue_benchmarks_def)
  then show ?thesis by simp
qed


lemma estimate_result_cases:
  assumes "estimate_song_revenue x = Inr r"
  shows "x = None \<and> r = 0 \<or> (\<exists>y. x = Some y \<and> 0 \<le> py_int y \<and> py_int y < 110)"
proof (cases x)
  case None
  then show ?thesis using assms by (simp add: estimate_song_revenue_def)
next
  case (Some y)
  have "\<not> (py_int y < 0 \<or> 110 \<le> py_int y)"
  proof
    assume "py_int y < 0 \<or> 110 \<le> py_int y"
    then have "estimate_song_revenue (Some y) = Inl KeyError" by (rule estimate_keyerror)
    then show False using assms Some by simp
  qed
  then show ?thesis using Some by auto
qed

lemma estimate_nonneg: "estimate_song_revenue x = Inr r \<Longrightarrow> 0 \<le> r"
proof -
  assume a: "estimate_song_revenue x = Inr r"
  from estimate_result_cases [OF a] show ?thesis
  proof
    assume "x = None \<and> r = 0" then show ?thesis by simp
  next
    assume "\<exists>y. x = Some y \<and> 0 \<le> py_int y \<and> py_int y < 110"
    then obtain y where y: "x = Some y" "0 \<le> py_int y" "py_int y < 110" by blast
    show ?thesis
    proof (cases "py_int y \<le> 100")
      case True
      then show ?thesis using a y estimate_eq_spec [of y] spec_estimate_nonneg [of "py_int y"] by simp
    next
      case False
      then show ?thesis using a y estimate_top [of y] by simp
    qed
  qed
qed

lemma py_int_mono_nonneg: "0 \<le> x \<Longrightarrow> x \<le> y \<Longrightarrow> 0 \<le> py_int x \<and> py_int x \<le> py_int y"
  by (simp add: py_int_def floor_mono)

lemma py_int_le: "0 \<le> x \<Longrightarrow> x \<le> of_int n \<Longrightarrow> py_int x \<le> n"
  by (simp add: py_int_def floor_le_iff) 


text \<open>
  Claim C7. For popularity values \<open>p \<le> q\<close> in \<open>[0, 100]\<close> the estimator returns for both and
  the revenue at \<open>p\<close> is at most the revenue at \<open>q\<close>; and whatever the input (a missing
  popularity included), a returned revenue is never negative.
\<close>

theorem estimate_revenue_monotone_nonneg:
  "(0 \<le> p \<and> p \<le> q \<and> q \<le> 100 \<longrightarrow>
      (\<exists>rp rq. estimate_song_revenue (Some p) = Inr rp
             \<and> estimate_song_revenue (Some q) = Inr rq \<and> rp \<le> rq))
   \<and> (estimate_song_revenue x = Inr r \<longrightarrow> 0 \<le> r)"
proof (intro conjI impI)
  assume a: "0 \<le> p \<and> p \<le> q \<and> q \<le> 100"
  then have pq: "0 \<le> py_int p" "py_int p \<le> py_int q"
    using py_int_mono_nonneg [of p q] by auto
  have q100: "py_int q \<le> 100" using a py_int_le [of q 100] by simp
  have "estimate_song_revenue (Some p) = Inr (spec_estimate_revenue (py_int p))"
    using pq q100 by (intro estimate_eq_spec) auto
  moreover have "estimate_song_revenue (Some q) = Inr (spec_estimate_revenue (py_int q))"
    using pq q100 by (intro estimate_eq_spec) auto
  moreover have "spec_estimate_revenue (py_int p) \<le> spec_estimate_revenue (py_int q)"
    using pq q100 by (intro spec_estimate_mono) auto
  ultimately show "\<exists>rp rq. estimate_song_revenue (Some p) = Inr rp
             \<and> estimate_song_revenue (Some q) = Inr rq \<and> rp \<le> rq" by blast
next
  assume "estimate_song_revenue x = Inr r"
  then show "0 \<le> r" by (rule estimate_nonneg)
qed

theorem estimate_revenue_monotone_nonneg_witness:
  "(0::rat) \<le> 45 \<and> (45::rat) \<le> 82 \<and> (82::rat) \<le> 100
   \<and> estimate_song_revenue (Some 45) = Inr 112500
   \<and> estimate_song_revenue (Some 82) = Inr 4600000
   \<and> (\<exists>rp rq. estimate_song_revenue (Some 45) = Inr rp
             \<and> estimate_song_revenue (Some 82) = Inr rq \<and> rp \<le> rq)
   \<and> (0::rat) \<le> 112500"
  using estimate_revenue_monotone_nonneg [of 45 82 "Some 45" 112500]
  by (simp add: estimate_song_revenue_def py_int_def dict_getitem_def revenue_benchmarks_def)

text \<open>
  Claim C2. The estimator returns 0 for a missing popularity, the table value at the benchmark
  points (500 at 0, 150000 at 50, 30000000 at 100, and the table value at every multiple of
  ten from 0 to 100), 112500 at 45, and for every whole popularity \<open>p\<close> in \<open>[0, 100]\<close> the
  value of the piecewise-linear reference \<open>spec_estimate_revenue p\<close>.
\<close>

theorem estimate_revenue_piecewise_linear:
  "estimate_song_revenue None = Inr 0
   \<and> estimate_song_revenue (Some 0) = Inr 500
   \<and> estimate_song_revenue (Some 50) = Inr 150000
   \<and> estimate_song_revenue (Some 100) = Inr 30000000
   \<and> estimate_song_revenue (Some 45) = Inr 112500
   \<and> (0 \<le> k \<and> k \<le> 10 \<longrightarrow>
        estimate_song_revenue (Some (of_int (k * 10))) = Inr (of_int (benchmark (k * 10))))
   \<and> (0 \<le> p \<and> p \<le> 100 \<longrightarrow>
        estimate_song_revenue (Some (of_int p)) = Inr (spec_estimate_revenue p))"
proof (intro conjI impI)
  show "estimate_song_revenue None = Inr 0" by (simp add: estimate_song_revenue_def)
  have e: "\<And>n. 0 \<le> n \<Longrightarrow> n \<le> 100 \<Longrightarrow>
      estimate_song_revenue (Some (of_int n)) = Inr (spec_estimate_revenue n)"
    using estimate_eq_spec [of "of_int _"] by (simp add: py_int_of_int)
  show "estimate_song_revenue (Some 0) = Inr 500"
    using e [of 0] spec_estimate_at_decade [of 0] by (simp add: benchmark_def revenue_benchmarks_def)
  show "estimate_song_revenue (Some 50) = Inr 150000"
    using e [of 50] spec_estimate_at_decade [of 5] by (simp add: benchmark_def revenue_benchmarks_def)
  show "estimate_song_revenue (Some 100) = Inr 30000000"
    using e [of 100] spec_estimate_100 by simp
  show "estimate_song_revenue (Some 45) = Inr 112500"
    using e [of 45] spec_estimate_decade [of 4 5] by (simp add: benchmark_def revenue_benchmarks_def)
  show "estimate_song_revenue (Some (of_int p)) = Inr (spec_estimate_revenue p)"
    if "0 \<le> p \<and> p \<le> 100" using that e by simp
  show "estimate_song_revenue (Some (of_int (k * 10))) = Inr (of_int (benchmark (k * 10)))"
    if "0 \<le> k \<and> k \<le> 10"
  proof -
    have "0 \<le> k * 10" "k * 10 \<le> 100" using that by auto
    then show ?thesis using e [of "k * 10"] spec_estimate_at_decade [of k] that by simp
  qed
qed

theorem estimate_revenue_piecewise_linear_witness:
  "(0::int) \<le> 7 \<and> (7::int) \<le> 10 \<and> (0::int) \<le> 37 \<and> (37::int) \<le> 100
   \<and> estimate_song_revenue (Some 70) = Inr 800000
   \<and> estimate_song_revenue (Some 37) = Inr 61500"
  using estimate_revenue_piecewise_linear [of 7 37]
  by (simp add: spec_estimate_revenue_def benchmark_def revenue_benchmarks_def)



section \<open>Properties of the tier classifier\<close>

lemma classify_loop_int:
  "classify_loop tier_definitions (of_int p) =
     (if 80 \<le> p \<and> p \<le> 100 then hit else if 65 \<le> p \<and> p \<le> 79 then good
      else if 35 \<le> p \<and> p \<le> 64 then mid else if 0 \<le> p \<and> p \<le> 34 then bust else unknown)"
proof -
  have c: "\<And>n. (of_int n \<le> (of_int p :: rat)) = (n \<le> p)" "\<And>n. ((of_int p :: rat) \<le> of_int n) = (p \<le> n)"
    by simp_all
  show ?thesis
    unfolding tier_definitions_def classify_loop.simps c by simp
qed

text \<open>
  Claim C3. For every whole popularity \<open>p\<close> in \<open>0..100\<close> exactly one entry of the tier table has
  an inclusive range containing \<open>p\<close>, and the classifier returns the tier of that entry;
  79 is \<open>good\<close>, 80 is \<open>hit\<close>, and a missing popularity is \<open>unknown\<close>.
\<close>

theorem classify_tier_partition:
  "(0 \<le> p \<and> p \<le> 100 \<longrightarrow>
      length (filter (\<lambda>(t, min_pop, max_pop). min_pop \<le> p \<and> p \<le> max_pop) tier_definitions) = 1
      \<and> classify_song (Some (of_int p)) \<noteq> unknown
      \<and> (\<exists>min_pop max_pop. (classify_song (Some (of_int p)), min_pop, max_pop) \<in> set tier_definitions
             \<and> min_pop \<le> p \<and> p \<le> max_pop))
   \<and> classify_song (Some 79) = good
   \<and> classify_song (Some 80) = hit
   \<and> classify_song None = unknown"
proof (intro conjI impI)
  assume a: "0 \<le> p \<and> p \<le> 100"
  show "length (filter (\<lambda>(t, min_pop, max_pop). min_pop \<le> p \<and> p \<le> max_pop) tier_definitions) = 1"
    using a by (simp add: tier_definitions_def)
  show "classify_song (Some (of_int p)) \<noteq> unknown"
    using a by (simp add: classify_song_def classify_loop_int)
  show "\<exists>min_pop max_pop. (classify_song (Some (of_int p)), min_pop, max_pop) \<in> set tier_definitions
             \<and> min_pop \<le> p \<and> p \<le> max_pop"
    using a by (simp add: classify_song_def classify_loop_int tier_definitions_def)
next
  show "classify_song (Some 79) = good"
    using classify_loop_int [of 79] by (simp add: classify_song_def)
  show "classify_song (Some 80) = hit"
    using classify_loop_int [of 80] by (simp add: classify_song_def)
  show "classify_song None = unknown" by (simp add: classify_song_def)
qed

theorem classify_tier_partition_witness:
  "(0::int) \<le> 64 \<and> (64::int) \<le> 100
   \<and> length (filter (\<lambda>(t, min_pop, max_pop). min_pop \<le> (64::int) \<and> 64 \<le> max_pop) tier_definitions) = 1
   \<and> classify_song (Some 64) = mid"
  using classify_tier_partition [of 64]
  by (simp add: tier_definitions_def classify_song_def)

section \<open>Properties of the aggregation loop\<close>

lemma map_of_dict_set: "map_of (dict_set D k v) = (map_of D)(k \<mapsto> v)"
  by (induction D k v rule: dict_set.induct) auto

lemma artist_data_get_dict_set:
  "artist_data_get (dict_set D k v) a = (if a = k then v else artist_data_get D a)"
  by (simp add: artist_data_get_def map_of_dict_set)

lemma credit_artists_get:
  "artist_data_get (credit_artists td r tier revenue artists D) a =
     (credit_artist td r tier revenue ^^ count_list artists a) (artist_data_get D a)"
proof (induction artists arbitrary: D)
  case Nil
  then show ?case by simp
next
  case (Cons b artists)
  show ?case
    by (simp add: Cons.IH artist_data_get_dict_set funpow_swap1)
qed

lemma credit_artists_map_of_other:
  "a \<notin> set artists \<Longrightarrow> map_of (credit_artists td r tier revenue artists D) a = map_of D a"
  by (induction artists arbitrary: D) (auto simp: map_of_dict_set)


lemma credit_artist_counts:
  "total_songs (credit_artist td r tier revenue d) = total_songs d + 1"
  "total_revenue (credit_artist td r tier revenue d) = total_revenue d + revenue"
  "hit_songs (credit_artist td r tier revenue d) = hit_songs d + (if tier = hit then 1 else 0)"
  "good_songs (credit_artist td r tier revenue d) = good_songs d + (if tier = good then 1 else 0)"
  "mid_songs (credit_artist td r tier revenue d) = mid_songs d + (if tier = mid then 1 else 0)"
  "bust_songs (credit_artist td r tier revenue d) = bust_songs d + (if tier = bust then 1 else 0)"
  "explicit_count (credit_artist td r tier revenue d) =
     explicit_count d + (if py_eq_str (Explicit r) ''Yes'' then 1 else 0)"
  by (simp_all add: credit_artist_def Let_def split: option.splits)

lemma credit_artist_funpow_counts:
  "total_songs ((credit_artist td r tier revenue ^^ n) d) = total_songs d + int n"
  "total_revenue ((credit_artist td r tier revenue ^^ n) d) = total_revenue d + of_nat n * revenue"
  "hit_songs ((credit_artist td r tier revenue ^^ n) d) = hit_songs d + (if tier = hit then int n else 0)"
  "good_songs ((credit_artist td r tier revenue ^^ n) d) = good_songs d + (if tier = good then int n else 0)"
  "mid_songs ((credit_artist td r tier revenue ^^ n) d) = mid_songs d + (if tier = mid then int n else 0)"
  "bust_songs ((credit_artist td r tier revenue ^^ n) d) = bust_songs d + (if tier = bust then int n else 0)"
  "explicit_count ((credit_artist td r tier revenue ^^ n) d) =
     explicit_count d + (if py_eq_str (Explicit r) ''Yes'' then int n else 0)"
  by (induction n) (simp_all add: credit_artist_counts algebra_simps)

lemma process_row_cases:
  assumes "process_row td r D = Inr D'"
  obtains revenue where "estimate_song_revenue (Popularity r) = Inr revenue"
    and "D' = credit_artists td r (classify_song (Popularity r)) revenue (parse_artists (Artists r)) D"
  using assms by (auto simp: process_row_def Let_def split: sum.splits)

lemma parse_artists_example: "parse_artists (Some ''A, B'') = [''A'', ''B'']"
  by (simp add: parse_artists_def strip_def py_isspace_def)


lemma estimate_82: "estimate_song_revenue (Some 82) = Inr 4600000"
  by code_simp

lemma classify_82: "classify_song (Some 82) = hit"
  using classify_loop_int [of 82] by (simp add: classify_song_def)

lemma process_example_row:
  "process_row td example_row D = Inr (credit_artists td example_row hit 4600000 [''A'', ''B''] D)"
  by (simp add: process_row_def example_row_def parse_artists_example estimate_82 classify_82)

text \<open>
  Claim C1. When a row is processed, tier and revenue are computed once, and every occurrence
  of an artist among the parsed names adds 1 to that artist's \<open>total_songs\<close> and that same
  revenue to the artist's \<open>total_revenue\<close> (so an artist named once gains exactly one song and
  the song's revenue); an artist who is not named keeps its entry, or its absence, and with
  no parsed name the accumulators are unchanged.
\<close>

theorem fan_out:
  assumes "process_row td r D = Inr D'"
  shows "\<exists>revenue. estimate_song_revenue (Popularity r) = Inr revenue
           \<and> (\<forall>a. total_songs (artist_data_get D' a) =
                      total_songs (artist_data_get D a) + int (count_list (parse_artists (Artists r)) a)
                  \<and> total_revenue (artist_data_get D' a) =
                      total_revenue (artist_data_get D a)
                      + of_nat (count_list (parse_artists (Artists r)) a) * revenue
                  \<and> (a \<notin> set (parse_artists (Artists r)) \<longrightarrow> map_of D' a = map_of D a))
           \<and> (parse_artists (Artists r) = [] \<longrightarrow> D' = D)"
proof -
  from assms obtain revenue where rv: "estimate_song_revenue (Popularity r) = Inr revenue"
    and D': "D' = credit_artists td r (classify_song (Popularity r)) revenue (parse_artists (Artists r)) D"
    by (rule process_row_cases)
  have "\<forall>a. total_songs (artist_data_get D' a) =
                      total_songs (artist_data_get D a) + int (count_list (parse_artists (Artists r)) a)
                  \<and> total_revenue (artist_data_get D' a) =
                      total_revenue (artist_data_get D a)
                      + of_nat (count_list (parse_artists (Artists r)) a) * revenue
                  \<and> (a \<notin> set (parse_artists (Artists r)) \<longrightarrow> map_of D' a = map_of D a)"
    unfolding D' by (simp add: credit_artists_get credit_artist_funpow_counts credit_artists_map_of_other)
  moreover have "parse_artists (Artists r) = [] \<longrightarrow> D' = D"
    unfolding D' by simp
  ultimately show ?thesis using rv by blast
qed

theorem fan_out_witness:
  "process_row no_dates example_row [] =
     Inr (credit_artists no_dates example_row hit 4600000 [''A'', ''B''] [])
   \<and> total_songs (artist_data_get (credit_artists no_dates example_row hit 4600000 [''A'', ''B''] []) ''A'') = 1
   \<and> total_songs (artist_data_get (credit_artists no_dates example_row hit 4600000 [''A'', ''B''] []) ''B'') = 1
   \<and> total_revenue (artist_data_get (credit_artists no_dates example_row hit 4600000 [''A'', ''B''] []) ''A'') = 4600000
   \<and> total_revenue (artist_data_get (credit_artists no_dates example_row hit 4600000 [''A'', ''B''] []) ''B'') = 4600000"
proof -
  let ?D = "credit_artists no_dates example_row hit 4600000 [''A'', ''B''] []"
  have p: "process_row no_dates example_row [] = Inr ?D" by (rule process_example_row)
  have n: "parse_artists (Artists example_row) = [''A'', ''B'']"
    by (simp add: example_row_def parse_artists_example)
  have e: "estimate_song_revenue (Popularity example_row) = Inr 4600000"
    by (simp add: example_row_def estimate_82)
  have z: "total_songs (artist_data_get [] a) = 0" "total_revenue (artist_data_get [] a) = 0" for a
    by (simp_all add: artist_data_get_def new_artist_data_def)
  from fan_out [OF p] obtain revenue where
    r: "estimate_song_revenue (Popularity example_row) = Inr revenue"
    and f: "\<And>a. total_songs (artist_data_get ?D a) =
                total_songs (artist_data_get [] a) + int (count_list (parse_artists (Artists example_row)) a)"
           "\<And>a. total_revenue (artist_data_get ?D a) =
                total_revenue (artist_data_get [] a)
                + of_nat (count_list (parse_artists (Artists example_row)) a) * revenue"
    by blast
  have rv: "revenue = 4600000" using r e by simp
  show ?thesis
    using p f(1) [of "''A''"] f(1) [of "''B''"] f(2) [of "''A''"] f(2) [of "''B''"]
    unfolding n z rv by simp
qed










section \<open>Properties of the summary\<close>

lemma two_decimals_iff: "two_decimals x \<longleftrightarrow> (\<exists>n::int. x * 100 = of_int n)"
  by (simp add: two_decimals_def)

lemma py_round2_two_decimals: "two_decimals (py_round2 x)"
  unfolding two_decimals_iff by (simp add: py_round2_def Let_def)

lemma py_round2_fixed: "two_decimals x \<Longrightarrow> py_round2 x = x"
proof -
  assume "two_decimals x"
  then obtain n :: int where n: "x * 100 = of_int n" unfolding two_decimals_iff by blast
  then have "x = of_int n / 100" by simp
  then show ?thesis by (simp add: py_round2_def Let_def)
qed

lemma two_decimals_add: "two_decimals x \<Longrightarrow> two_decimals y \<Longrightarrow> two_decimals (x + y)"
proof -
  assume "two_decimals x" "two_decimals y"
  then obtain n m :: int where "x * 100 = of_int n" "y * 100 = of_int m"
    unfolding two_decimals_iff by blast
  then have "(x + y) * 100 = of_int (n + m)"
    by (simp add: algebra_simps)
  then show ?thesis unfolding two_decimals_iff by blast
qed

lemma two_decimals_sum_list: "(\<forall>x \<in> set xs. two_decimals x) \<Longrightarrow> two_decimals (sum_list xs)"
proof (induction xs)
  case Nil
  show ?case by (simp add: two_decimals_def)
next
  case (Cons x xs)
  then show ?case by (simp add: two_decimals_add)
qed

lemma estimated_total_revenue_finalize:
  "estimated_total_revenue (finalize_artist data) = py_round2 (total_revenue data)"
  by (simp add: finalize_artist_def Let_def)

text \<open>
  Claim C6. For profiles whose \<open>estimated_total_revenue\<close> has at most two decimals, the summary's
  song total is the sum of the profiles' \<open>total_songs\<close> and its revenue total is exactly the
  sum of their \<open>estimated_total_revenue\<close>; every profile list that \<open>analyze_artists\<close> returns is
  of that kind. The summary is a function of the profiles, which it cannot change.
\<close>

theorem summary_totals:
  "((\<forall>x \<in> set profiles. two_decimals (estimated_total_revenue (snd x))) \<longrightarrow>
      summary_total_songs (get_summary_stats profiles) = (\<Sum>x\<leftarrow>profiles. total_songs (snd x))
      \<and> total_estimated_revenue (get_summary_stats profiles) =
          (\<Sum>x\<leftarrow>profiles. estimated_total_revenue (snd x)))
   \<and> (analyze_artists td rows = Inr profiles \<longrightarrow>
        (\<forall>x \<in> set profiles. two_decimals (estimated_total_revenue (snd x))))"
proof (intro conjI impI)
  assume a: "\<forall>x \<in> set profiles. two_decimals (estimated_total_revenue (snd x))"
  have c: "(\<lambda>(artist, data). f data) = (\<lambda>x. f (snd x))" for f :: "artist_profile \<Rightarrow> 'b"
    by (simp add: fun_eq_iff split_beta)
  show "summary_total_songs (get_summary_stats profiles) = (\<Sum>x\<leftarrow>profiles. total_songs (snd x))"
    by (simp add: get_summary_stats_def Let_def c)
  have "two_decimals (\<Sum>x\<leftarrow>profiles. estimated_total_revenue (snd x))"
    using a by (intro two_decimals_sum_list) auto
  then show "total_estimated_revenue (get_summary_stats profiles) =
          (\<Sum>x\<leftarrow>profiles. estimated_total_revenue (snd x))"
    by (simp add: get_summary_stats_def Let_def c py_round2_fixed)
next
  assume "analyze_artists td rows = Inr profiles"
  then obtain D where "profiles = map (\<lambda>(artist, data). (artist, finalize_artist data)) D"
    by (auto simp: analyze_artists_def split: sum.splits)
  then show "\<forall>x \<in> set profiles. two_decimals (estimated_total_revenue (snd x))"
    by (auto simp: estimated_total_revenue_finalize py_round2_two_decimals)
qed

lemma total_songs_finalize: "total_songs (finalize_artist data) = total_songs data"
  by (simp add: finalize_artist_def Let_def)

lemma example_profiles_eq:
  "example_profiles =
     [(''A'', finalize_artist (credit_artist no_dates example_row hit 4600000 new_artist_data)),
      (''B'', finalize_artist (credit_artist no_dates example_row hit 4600000 new_artist_data))]"
  by (simp add: example_profiles_def artist_data_get_def)

lemma analyze_example: "analyze_artists no_dates [example_row] = Inr example_profiles"
  by (simp add: analyze_artists_def process_example_row example_profiles_def)

theorem summary_totals_witness:
  "analyze_artists no_dates [example_row] = Inr example_profiles
   \<and> list_all (\<lambda>x. two_decimals (estimated_total_revenue (snd x))) example_profiles
   \<and> summary_total_songs (get_summary_stats example_profiles) = 2
   \<and> total_estimated_revenue (get_summary_stats example_profiles) = 9200000"
proof -
  note t = summary_totals [of example_profiles no_dates "[example_row]"]
  have h: "\<forall>x \<in> set example_profiles. two_decimals (estimated_total_revenue (snd x))"
    using t analyze_example by blast
  have r: "py_round2 4600000 = 4600000" by (simp add: py_round2_def)
  have s: "(\<Sum>x\<leftarrow>example_profiles. total_songs (snd x)) = 2"
    by (simp add: example_profiles_eq total_songs_finalize credit_artist_counts new_artist_data_def)
  have e: "(\<Sum>x\<leftarrow>example_profiles. estimated_total_revenue (snd x)) = 9200000"
    by (simp add: example_profiles_eq estimated_total_revenue_finalize credit_artist_counts
        new_artist_data_def r)
  show ?thesis using t h analyze_example s e by (simp add: list_all_iff)
qed

section \<open>Properties of the saved output\<close>

lemma process_unrated_row:
  "process_row td unrated_row D = Inr (credit_artists td unrated_row unknown 0 [''A'', ''B''] D)"
  by (simp add: process_row_def unrated_row_def example_row_def parse_artists_example
      classify_song_def estimate_song_revenue_def)

lemma analyze_unrated: "analyze_artists no_dates [unrated_row] = Inr unrated_profiles"
  by (simp add: analyze_artists_def process_unrated_row unrated_profiles_def)

lemma songs_finalize: "songs (finalize_artist data) = songs data"
  by (simp add: finalize_artist_def Let_def)

lemma songs_credit_artist:
  "songs (credit_artist td r tier revenue d) =
     songs d @ [\<lparr>d_title = song r, d_popularity = Popularity r, d_tier = tier,
                 d_revenue = revenue, d_release_date = Release_Date r\<rparr>]"
  by (simp add: credit_artist_def Let_def split: option.splits)

lemma has_nan_profile:
  assumes "\<exists>d \<in> set (songs p). d_popularity d = None"
  shows "has_nan (json_profile date_str p)"
proof -
  from assms obtain d where d: "d \<in> set (songs p)" "d_popularity d = None" by blast
  have "has_nan (json_song_detail d)"
    using d(2) by (simp add: json_song_detail_def json_num_cell_def)
  then have "\<exists>x \<in> set (songs p). has_nan (json_song_detail x)" using d(1) by blast
  then show ?thesis by (simp add: json_profile_def)
qed

lemma has_nan_save_results:
  assumes "(artist, p) \<in> set artist_data" "has_nan (json_profile date_str p)"
  shows "has_nan (save_results date_str artist_data)"
proof -
  have "\<exists>kv \<in> set artist_data. has_nan (json_profile date_str (snd kv))"
    using assms by force
  then show ?thesis by (simp add: save_results_def split_beta)
qed

text \<open>
  Claim C4 asks that the saved output never holds a \<open>NaN\<close> token. For the one-row input
  \<open>[unrated_row]\<close>, whose popularity is missing, the analysis succeeds and the saved output
  holds one: the retained song detail keeps the NaN popularity and it is written as it is.
\<close>

theorem save_results_emits_nan:
  "analyze_artists no_dates [unrated_row] = Inr unrated_profiles
   \<and> has_nan (save_results date_str unrated_profiles)"
proof -
  let ?p = "finalize_artist (credit_artist no_dates unrated_row unknown 0 new_artist_data)"
  have e: "unrated_profiles = [(''A'', ?p), (''B'', ?p)]"
    by (simp add: unrated_profiles_def artist_data_get_def)
  have m: "(''A'', ?p) \<in> set unrated_profiles" unfolding e by simp
  have "has_nan (json_profile date_str ?p)"
    by (rule has_nan_profile) (simp add: songs_finalize songs_credit_artist unrated_row_def)
  then have "has_nan (save_results date_str unrated_profiles)"
    using m by (rule has_nan_save_results [rotated])
  then show ?thesis using analyze_unrated by simp
qed

section \<open>Order independence\<close>






























end
